theory Spec2Isabelle
  imports Main "HOL-Library.Sublist"
begin

section \<open>JavaScript values and test outcomes\<close>

text \<open>
  The helpers of the framework take and compare untyped JavaScript values (\<open>any\<close>).
  A value is a primitive or an object. An object carries its identity (the reference
  that \<open>===\<close> compares) and its own data properties in insertion order. Numbers are
  the integer-valued ones (status codes, row counts, ids) and \<open>NaN\<close>; fractional
  numbers are not part of the model.
\<close>

datatype jsval =
    JUndefined
  | JNull
  | JBool bool
  | JNum int
  | JNaN
  | JStr string
  | JObj nat "(string \<times> jsval) list"

text \<open>
  A helper call inside a test either completes or fails the test. The failures are
  the ones the sources can produce: an \<open>Error\<close> thrown by the helper itself, a failed
  \<open>expect\<close> (with the message the helper passes to it, empty when it passes none), a
  \<open>TypeError\<close> of the language (member access on \<open>undefined\<close> or \<open>null\<close>), and a task
  of the runner that rejected with the given message.
\<close>

datatype failure =
    Error string
  | AssertionError string
  | TypeError
  | TaskRejected string

type_synonym 'a outcome = "failure + 'a"

text \<open>The operator \<open>===\<close>: no coercion, objects by reference, \<open>NaN\<close> equal to nothing.\<close>

fun strict_eq :: "jsval \<Rightarrow> jsval \<Rightarrow> bool" where
  "strict_eq JUndefined JUndefined = True"
| "strict_eq JNull JNull = True"
| "strict_eq (JBool a) (JBool b) = (a = b)"
| "strict_eq (JNum a) (JNum b) = (a = b)"
| "strict_eq (JStr a) (JStr b) = (a = b)"
| "strict_eq (JObj a _) (JObj b _) = (a = b)"
| "strict_eq _ _ = False"

text \<open>
  Member access \<open>v[p]\<close>. It throws on \<open>undefined\<close> and \<open>null\<close>, reads an own property of
  an object (\<open>undefined\<close> when there is none) and the \<open>length\<close> of a string. Members
  inherited from a prototype and the index properties of a string are not modelled.
\<close>

fun get_prop :: "jsval \<Rightarrow> string \<Rightarrow> jsval outcome" where
  "get_prop JUndefined p = Inl TypeError"
| "get_prop JNull p = Inl TypeError"
| "get_prop (JObj _ props) p =
     Inr (case map_of props p of None \<Rightarrow> JUndefined | Some v \<Rightarrow> v)"
| "get_prop (JStr s) p =
     Inr (if p = ''length'' then JNum (int (length s)) else JUndefined)"
| "get_prop _ p = Inr JUndefined"

text \<open>\<open>String.prototype.toLowerCase\<close> on the ASCII letters, which header names consist of.\<close>

definition toLowerCase_char :: "char \<Rightarrow> char" where
  "toLowerCase_char c =
     (if 65 \<le> (of_char c :: nat) \<and> (of_char c :: nat) \<le> 90
      then char_of ((of_char c :: nat) + 32) else c)"

definition toLowerCase :: "string \<Rightarrow> string" where
  "toLowerCase s = map toLowerCase_char s"

subsection \<open>The assertions of the test runner that the helpers use\<close>

text \<open>\<open>expect(a, msg).to.eq(b)\<close>: strict equality.\<close>

definition expect_eq :: "string \<Rightarrow> jsval \<Rightarrow> jsval \<Rightarrow> unit outcome" where
  "expect_eq msg a b = (if strict_eq a b then Inr () else Inl (AssertionError msg))"

text \<open>
  \<open>expect(obj).to.have.property(k)\<close> on a plain string-keyed object tests \<open>k in obj\<close>:
  \<open>k\<close> is one of the object's own keys or the name of a member it inherits from
  \<open>Object.prototype\<close>.
\<close>

definition Object_prototype_members :: "string list" where
  "Object_prototype_members =
     [''constructor'', ''__defineGetter__'', ''__defineSetter__'', ''hasOwnProperty'',
      ''__lookupGetter__'', ''__lookupSetter__'', ''isPrototypeOf'', ''propertyIsEnumerable'',
      ''toString'', ''valueOf'', ''__proto__'', ''toLocaleString'']"

definition has_property :: "(string \<times> 'v) list \<Rightarrow> string \<Rightarrow> bool" where
  "has_property obj k \<longleftrightarrow> map_of obj k \<noteq> None \<or> k \<in> set Object_prototype_members"

definition expect_have_property :: "(string \<times> 'v) list \<Rightarrow> string \<Rightarrow> unit outcome" where
  "expect_have_property obj k =
     (if has_property obj k then Inr () else Inl (AssertionError []))"

text \<open>\<open>expect(s).to.include(t)\<close> on strings: \<open>t\<close> occurs in \<open>s\<close> as a contiguous substring.\<close>

definition expect_include :: "string \<Rightarrow> string \<Rightarrow> unit outcome" where
  "expect_include s t = (if sublist t s then Inr () else Inl (AssertionError []))"

text \<open>
  \<open>expect(b, msg).to.be.true\<close> and \<open>expect(v, msg).to.be.greaterThan(n)\<close>. The latter
  fails on a target that is not a number before it compares.
\<close>

definition expect_true :: "string \<Rightarrow> bool \<Rightarrow> unit outcome" where
  "expect_true msg b = (if b then Inr () else Inl (AssertionError msg))"

fun expect_greaterThan :: "string \<Rightarrow> jsval \<Rightarrow> int \<Rightarrow> unit outcome" where
  "expect_greaterThan msg (JNum v) n = (if n < v then Inr () else Inl (AssertionError msg))"
| "expect_greaterThan msg _ n = Inl (AssertionError msg)"

section \<open>ApiHelper: verification of HTTP responses\<close>

text \<open>
  The response of a request as \<open>api-helper.ts\<close> declares it (\<open>ApiResponse\<close>): \<open>status\<close>
  and \<open>duration\<close> are numbers, \<open>body\<close> is any value, \<open>headers\<close> is a record of strings.
\<close>

record ApiResponse =
  status :: int
  body :: jsval
  headers :: "(string \<times> string) list"
  duration :: int

definition verifyStatusCode :: "ApiResponse \<Rightarrow> int \<Rightarrow> unit outcome" where
  "verifyStatusCode response expectedStatus =
     expect_eq [] (JNum (status response)) (JNum expectedStatus)"

definition verifyBodyPropertyValue :: "ApiResponse \<Rightarrow> string \<Rightarrow> jsval \<Rightarrow> unit outcome" where
  "verifyBodyPropertyValue response property val =
     (case get_prop (body response) property of
        Inl f \<Rightarrow> Inl f
      | Inr v \<Rightarrow> expect_eq [] v val)"

text \<open>
  The optional parameter \<open>expectedValue\<close> is \<open>None\<close> when the caller leaves it out.
  The guard \<open>if (expectedValue)\<close> tests truthiness: a string is truthy unless empty.
  Under an own key \<open>response.headers[k]\<close> is the stored string; under an inherited
  name it is a function or an object, which \<open>include\<close> refuses with a string to look
  for.
\<close>

definition truthy_string :: "string option \<Rightarrow> bool" where
  "truthy_string v = (case v of None \<Rightarrow> False | Some s \<Rightarrow> s \<noteq> [])"

definition verifyHeader :: "ApiResponse \<Rightarrow> string \<Rightarrow> string option \<Rightarrow> unit outcome" where
  "verifyHeader response headerName expectedValue =
     (case expect_have_property (headers response) (toLowerCase headerName) of
        Inl f \<Rightarrow> Inl f
      | Inr _ \<Rightarrow>
          (if truthy_string expectedValue
           then (case map_of (headers response) (toLowerCase headerName) of
                   None \<Rightarrow> Inl (AssertionError [])
                 | Some hv \<Rightarrow> expect_include hv (the expectedValue))
           else Inr ()))"

section \<open>Database tasks (Node side): executeQuery and executeStoredProcedure\<close>

record DbOptions =
  encrypt :: "bool option"
  trustServerCertificate :: "bool option"

record DbConfig =
  server :: string
  database :: string
  user :: string
  password :: string
  port :: "int option"
  options :: "DbOptions option"

type_synonym row = "(string \<times> jsval) list"

record DbResult =
  success :: bool
  data :: "row list option"
  rowsAffected :: "int list option"
  error :: "string option"

text \<open>
  The SQL client library is an external collaborator. What it throws is an error
  object with a \<open>message\<close>; what a statement yields is a result with an optional
  \<open>recordset\<close> and the \<open>rowsAffected\<close> counts.
\<close>

datatype js_error = JsError (message: string)

datatype IResult = IResult (recordset: "row list option") (result_rowsAffected: "int list")

type_synonym pool = nat

text \<open>
  The behaviour of the client is a parameter of the model. Each operation either
  yields its value or throws: \<open>sql.connect(config)\<close>, \<open>pool.request().query(q)\<close>,
  \<open>request.input(key, value)\<close>, \<open>request.execute(name)\<close> on a request with the inputs
  bound so far, and \<open>pool.close()\<close>.
\<close>

record sql_client =
  sql_connect :: "DbConfig \<Rightarrow> js_error + pool"
  request_query :: "pool \<Rightarrow> string \<Rightarrow> js_error + IResult"
  request_input :: "pool \<Rightarrow> string \<Rightarrow> jsval \<Rightarrow> js_error option"
  request_execute :: "pool \<Rightarrow> (string \<times> jsval) list \<Rightarrow> string \<Rightarrow> js_error + IResult"
  pool_close :: "pool \<Rightarrow> js_error option"

text \<open>The calls a task makes on the client, in the order it makes them.\<close>

datatype sql_call =
    Connect DbConfig
  | Query pool string
  | Input pool string jsval
  | Execute pool string
  | Close pool

text \<open>
  An asynchronous task resolves with a value or rejects with an error; the model
  returns that together with the client calls made.
\<close>

type_synonym 'a task = "(js_error + 'a) \<times> sql_call list"

text \<open>The two object literals the tasks return.\<close>

definition succeeded :: "IResult \<Rightarrow> DbResult" where
  "succeeded result =
     \<lparr>success = True, data = recordset result,
      rowsAffected = Some (result_rowsAffected result), error = None\<rparr>"

definition failed :: "js_error \<Rightarrow> DbResult" where
  "failed e = \<lparr>success = False, data = None, rowsAffected = None, error = Some (message e)\<rparr>"

text \<open>
  The \<open>finally\<close> block of both tasks, entered with \<open>pool\<close> assigned: it awaits
  \<open>pool.close()\<close>. When that throws, the error replaces the value the \<open>try\<close> or the
  \<open>catch\<close> block was returning.
\<close>

definition finally_close :: "sql_client \<Rightarrow> pool \<Rightarrow> DbResult \<Rightarrow> sql_call list \<Rightarrow> DbResult task" where
  "finally_close cl p ret made =
     (case pool_close cl p of
        Some e \<Rightarrow> (Inl e, made @ [Close p])
      | None \<Rightarrow> (Inr ret, made @ [Close p]))"

text \<open>
  \<open>executeQuery({ query, config })\<close>. When \<open>sql.connect\<close> throws, \<open>pool\<close> is still
  undefined, the \<open>catch\<close> block builds the failure result and the \<open>finally\<close> block
  skips the close.
\<close>

definition executeQuery :: "sql_client \<Rightarrow> string \<Rightarrow> DbConfig \<Rightarrow> DbResult task" where
  "executeQuery cl query config =
     (case sql_connect cl config of
        Inl e \<Rightarrow> (Inr (failed e), [Connect config])
      | Inr p \<Rightarrow>
          finally_close cl p
            (case request_query cl p query of
               Inl e \<Rightarrow> failed e
             | Inr result \<Rightarrow> succeeded result)
            [Connect config, Query p query])"

text \<open>
  The loop \<open>Object.keys(parameters).forEach(key => request.input(key, parameters[key]))\<close>
  over the own properties of \<open>parameters\<close>, in order. It stops at the first input
  that throws. It returns the error, if any, the inputs bound and the calls made.
\<close>

fun add_parameters ::
  "sql_client \<Rightarrow> pool \<Rightarrow> (string \<times> jsval) list \<Rightarrow>
   js_error option \<times> (string \<times> jsval) list \<times> sql_call list" where
  "add_parameters cl p [] = (None, [], [])"
| "add_parameters cl p ((key, v) # rest) =
     (case request_input cl p key v of
        Some e \<Rightarrow> (Some e, [], [Input p key v])
      | None \<Rightarrow>
          (case add_parameters cl p rest of
             (r, bound, made) \<Rightarrow> (r, (key, v) # bound, Input p key v # made)))"

text \<open>
  \<open>executeStoredProcedure({ procedureName, parameters = {}, config })\<close>: the default
  applies when the caller passes no parameters.
\<close>

definition executeStoredProcedure ::
  "sql_client \<Rightarrow> string \<Rightarrow> (string \<times> jsval) list option \<Rightarrow> DbConfig \<Rightarrow> DbResult task" where
  "executeStoredProcedure cl procedureName parameters config =
     (case sql_connect cl config of
        Inl e \<Rightarrow> (Inr (failed e), [Connect config])
      | Inr p \<Rightarrow>
          (case add_parameters cl p (case parameters of None \<Rightarrow> [] | Some ps \<Rightarrow> ps) of
             (Some e, bound, made) \<Rightarrow> finally_close cl p (failed e) (Connect config # made)
           | (None, bound, made) \<Rightarrow>
               finally_close cl p
                 (case request_execute cl p bound procedureName of
                    Inl e \<Rightarrow> failed e
                  | Inr result \<Rightarrow> succeeded result)
                 (Connect config # made @ [Execute p procedureName])))"

text \<open>
  The tasks as \<open>registerDatabaseTasks\<close> registers them, \<open>dbQuery\<close> and
  \<open>dbStoredProcedure\<close>, run one after another by the runner: the calls of a run are the
  calls of its tasks in order.
\<close>

datatype db_task =
    DbQuery string DbConfig
  | DbStoredProcedure string "(string \<times> jsval) list option" DbConfig

fun run_task :: "sql_client \<Rightarrow> db_task \<Rightarrow> DbResult task" where
  "run_task cl (DbQuery query config) = executeQuery cl query config"
| "run_task cl (DbStoredProcedure procedureName parameters config) =
     executeStoredProcedure cl procedureName parameters config"

fun task_config :: "db_task \<Rightarrow> DbConfig" where
  "task_config (DbQuery query config) = config"
| "task_config (DbStoredProcedure procedureName parameters config) = config"

definition run_tasks :: "sql_client \<Rightarrow> db_task list \<Rightarrow> sql_call list" where
  "run_tasks cl ts = concat (map (\<lambda>t. snd (run_task cl t)) ts)"

text \<open>
  The pools that a sequence of client calls leaves open: a \<open>Connect\<close> that the client
  answers with a pool opens it, a \<open>Close\<close> releases it.
\<close>

fun open_pools :: "sql_client \<Rightarrow> sql_call list \<Rightarrow> pool list \<Rightarrow> pool list" where
  "open_pools cl [] opened = opened"
| "open_pools cl (Connect config # cs) opened =
     (case sql_connect cl config of
        Inl e \<Rightarrow> open_pools cl cs opened
      | Inr p \<Rightarrow> open_pools cl cs (p # opened))"
| "open_pools cl (Close p # cs) opened = open_pools cl cs (remove1 p opened)"
| "open_pools cl (c # cs) opened = open_pools cl cs opened"

text \<open>The pool a call is made on, if it is made on one.\<close>

fun call_pool :: "sql_call \<Rightarrow> pool option" where
  "call_pool (Connect config) = None"
| "call_pool (Query p q) = Some p"
| "call_pool (Input p k v) = Some p"
| "call_pool (Execute p n) = Some p"
| "call_pool (Close p) = Some p"

section \<open>DbHelper (test side)\<close>

text \<open>
  The class has one static field, \<open>config\<close>, undefined until \<open>setConfig\<close> stores a
  configuration. Every method is modelled as a step from the state of the class: it
  returns what the command yields or how it fails, the client calls made, and the
  state after it.
\<close>

record DbHelper =
  config :: "DbConfig option"

record 'a step =
  result :: "'a outcome"
  calls :: "sql_call list"
  state :: DbHelper

definition setConfig :: "DbConfig \<Rightarrow> DbHelper \<Rightarrow> DbHelper" where
  "setConfig c h = h\<lparr>config := Some c\<rparr>"

definition getConfig :: "DbHelper \<Rightarrow> DbConfig outcome" where
  "getConfig h =
     (case config h of
        None \<Rightarrow> Inl (Error ''Database configuration not set. Call DbHelper.setConfig() first.'')
      | Some c \<Rightarrow> Inr c)"

text \<open>
  \<open>cy.task(name, arg)\<close> runs the task registered under \<open>name\<close> and yields the value it
  resolves with; a task that rejects fails the command.
\<close>

definition cy_task :: "'a task \<Rightarrow> 'a outcome \<times> sql_call list" where
  "cy_task t =
     (case t of
        (Inl e, made) \<Rightarrow> (Inl (TaskRejected (message e)), made)
      | (Inr v, made) \<Rightarrow> (Inr v, made))"

text \<open>
  \<open>const config = customConfig || this.getConfig()\<close>: a supplied configuration object
  is truthy, so \<open>getConfig\<close> is evaluated only when none is supplied.
\<close>

definition resolve_config :: "DbHelper \<Rightarrow> DbConfig option \<Rightarrow> DbConfig outcome" where
  "resolve_config h customConfig =
     (case customConfig of Some c \<Rightarrow> Inr c | None \<Rightarrow> getConfig h)"

definition query :: "DbHelper \<Rightarrow> sql_client \<Rightarrow> string \<Rightarrow> DbConfig option \<Rightarrow> DbResult step" where
  "query h cl q customConfig =
     (case resolve_config h customConfig of
        Inl f \<Rightarrow> \<lparr>result = Inl f, calls = [], state = h\<rparr>
      | Inr c \<Rightarrow>
          (case cy_task (executeQuery cl q c) of
             (r, made) \<Rightarrow> \<lparr>result = r, calls = made, state = h\<rparr>))"

definition DbHelper_executeStoredProcedure ::
  "DbHelper \<Rightarrow> sql_client \<Rightarrow> string \<Rightarrow> (string \<times> jsval) list option \<Rightarrow> DbConfig option
   \<Rightarrow> DbResult step" where
  "DbHelper_executeStoredProcedure h cl procedureName parameters customConfig =
     (case resolve_config h customConfig of
        Inl f \<Rightarrow> \<lparr>result = Inl f, calls = [], state = h\<rparr>
      | Inr c \<Rightarrow>
          (case cy_task (executeStoredProcedure cl procedureName parameters c) of
             (r, made) \<Rightarrow> \<lparr>result = r, calls = made, state = h\<rparr>))"

text \<open>
  \<open>chain.then(callback)\<close>: the callback runs on the value the chain yields and does not
  run when the chain has failed.
\<close>

definition then_step :: "'a step \<Rightarrow> ('a \<Rightarrow> 'b outcome) \<Rightarrow> 'b step" where
  "then_step s callback =
     \<lparr>result = (case result s of Inl f \<Rightarrow> Inl f | Inr v \<Rightarrow> callback v),
      calls = calls s, state = state s\<rparr>"

text \<open>
  \<open>result.data![0].count\<close>: a \<open>TypeError\<close> when \<open>data\<close> is undefined or has no first
  row, \<open>undefined\<close> when the first row has no \<open>count\<close>.
\<close>

definition data0_count :: "DbResult \<Rightarrow> jsval outcome" where
  "data0_count r =
     (case data r of
        None \<Rightarrow> Inl TypeError
      | Some [] \<Rightarrow> Inl TypeError
      | Some (row0 # _) \<Rightarrow>
          Inr (case map_of row0 ''count'' of None \<Rightarrow> JUndefined | Some v \<Rightarrow> v))"

definition verifyRecordExists :: "DbHelper \<Rightarrow> sql_client \<Rightarrow> string \<Rightarrow> string \<Rightarrow> unit step" where
  "verifyRecordExists h cl tableName whereClause =
     then_step
       (query h cl (''SELECT COUNT(*) as count FROM '' @ tableName @ '' WHERE '' @ whereClause)
          None)
       (\<lambda>r. case expect_true ''Database query should succeed'' (success r) of
               Inl f \<Rightarrow> Inl f
             | Inr _ \<Rightarrow>
                 (case data0_count r of
                    Inl f \<Rightarrow> Inl f
                  | Inr c \<Rightarrow> expect_greaterThan (''Record should exist in '' @ tableName) c 0))"

definition verifyRecordNotExists :: "DbHelper \<Rightarrow> sql_client \<Rightarrow> string \<Rightarrow> string \<Rightarrow> unit step" where
  "verifyRecordNotExists h cl tableName whereClause =
     then_step
       (query h cl (''SELECT COUNT(*) as count FROM '' @ tableName @ '' WHERE '' @ whereClause)
          None)
       (\<lambda>r. case expect_true ''Database query should succeed'' (success r) of
               Inl f \<Rightarrow> Inl f
             | Inr _ \<Rightarrow>
                 (case data0_count r of
                    Inl f \<Rightarrow> Inl f
                  | Inr c \<Rightarrow> expect_eq (''Record should not exist in '' @ tableName) c (JNum 0)))"

section \<open>Environment configuration (cypress.config.ts)\<close>

text \<open>
  A configuration artifact exports \<open>{ baseUrl, env: { environment } }\<close>; the
  hard-coded default has a \<open>baseUrl\<close> only.
\<close>

record EnvironmentConfig =
  baseUrl :: string
  env_environment :: "string option"

text \<open>
  What \<open>require\<close> returns for a module that loads: its exports object, whose \<open>default\<close>
  member is undefined when the module has no default export, or a \<open>null\<close> or
  \<open>undefined\<close> \<open>module.exports\<close>, on which reading \<open>.default\<close> throws.
\<close>

datatype module_exports =
    NoExports
  | Exports (default_export: "EnvironmentConfig option")

text \<open>\<open>process.env.ENV || 'dev'\<close>: an unset variable and the empty string are falsy.\<close>

definition environment :: "string option \<Rightarrow> string" where
  "environment ENV = (case ENV of None \<Rightarrow> ''dev'' | Some s \<Rightarrow> if s = [] then ''dev'' else s)"

definition config_path :: "string \<Rightarrow> string" where
  "config_path e = ''./cypress/config/'' @ e @ ''.config.ts''"

definition try_catch :: "(js_error + 'a) \<Rightarrow> (js_error \<Rightarrow> js_error + 'a) \<Rightarrow> js_error + 'a" where
  "try_catch block handler = (case block of Inl e \<Rightarrow> handler e | Inr v \<Rightarrow> Inr v)"

text \<open>The expression \<open>require(path).default\<close> of the \<open>try\<close> block.\<close>

definition require_default ::
  "(string \<Rightarrow> js_error + module_exports) \<Rightarrow> string \<Rightarrow> js_error + EnvironmentConfig option" where
  "require_default require path =
     (case require path of
        Inl e \<Rightarrow> Inl e
      | Inr NoExports \<Rightarrow> Inl (JsError ''Cannot read properties of undefined'')
      | Inr (Exports d) \<Rightarrow> Inr d)"

definition default_config :: EnvironmentConfig where
  "default_config = \<lparr>baseUrl = ''https://example.cypress.io'', env_environment = None\<rparr>"

definition load_warning :: "string \<Rightarrow> string" where
  "load_warning e = ''Could not load config for environment: '' @ e @ '', using default config''"

text \<open>
  The resolution of \<open>envConfig\<close>. The module system is a parameter. The result is the
  value of \<open>envConfig\<close> (undefined when the artifact has no default export) with the
  warnings written to the console, or the error that escapes the statement.
\<close>

definition envConfig ::
  "(string \<Rightarrow> js_error + module_exports) \<Rightarrow> string option
   \<Rightarrow> js_error + (EnvironmentConfig option \<times> string list)" where
  "envConfig require ENV =
     try_catch
       (case require_default require (config_path (environment ENV)) of
          Inl e \<Rightarrow> Inl e
        | Inr d \<Rightarrow> Inr (d, []))
       (\<lambda>e. Inr (Some default_config, [load_warning (environment ENV)]))"

section \<open>Concrete inputs\<close>

text \<open>
  The configuration of the example file, a client that answers every statement with
  one row holding a count, a client whose statements throw, a client whose statements
  and whose \<open>close\<close> throw, and three module systems: one that has the \<open>qa\<close>
  artifact only, one that has none, and one whose \<open>qa\<close> artifact has a named export
  and no default export.
\<close>

definition dev_db :: DbConfig where
  "dev_db = \<lparr>server = ''localhost'', database = ''TestDB'', user = ''sa'',
     password = ''YourPassword123'', port = Some 1433,
     options = Some \<lparr>encrypt = Some False, trustServerCertificate = Some True\<rparr>\<rparr>"

definition count_rows :: "int \<Rightarrow> IResult" where
  "count_rows n = IResult (Some [ [(''count'', JNum n)] ]) [1]"

definition healthy_client :: "int \<Rightarrow> sql_client" where
  "healthy_client n =
     \<lparr>sql_connect = (\<lambda>c. Inr 7),
      request_query = (\<lambda>p q. Inr (count_rows n)),
      request_input = (\<lambda>p k v. None),
      request_execute = (\<lambda>p ps name. Inr (count_rows n)),
      pool_close = (\<lambda>p. None)\<rparr>"

definition failing_query_client :: sql_client where
  "failing_query_client =
     \<lparr>sql_connect = (\<lambda>c. Inr 7),
      request_query = (\<lambda>p q. Inl (JsError ''Invalid object name'')),
      request_input = (\<lambda>p k v. None),
      request_execute = (\<lambda>p ps name. Inl (JsError ''Could not find stored procedure'')),
      pool_close = (\<lambda>p. None)\<rparr>"

definition failing_close_client :: sql_client where
  "failing_close_client =
     \<lparr>sql_connect = (\<lambda>c. Inr 7),
      request_query = (\<lambda>p q. Inl (JsError ''Invalid object name'')),
      request_input = (\<lambda>p k v. None),
      request_execute = (\<lambda>p ps name. Inl (JsError ''Could not find stored procedure'')),
      pool_close = (\<lambda>p. Some (JsError ''Connection lost''))\<rparr>"

definition qa_config :: EnvironmentConfig where
  "qa_config = \<lparr>baseUrl = ''https://qa.yourapp.com'', env_environment = Some ''qa''\<rparr>"

definition qa_module :: "string \<Rightarrow> js_error + module_exports" where
  "qa_module path =
     (if path = ''./cypress/config/qa.config.ts'' then Inr (Exports (Some qa_config))
      else Inl (JsError ''Cannot find module''))"

definition no_module :: "string \<Rightarrow> js_error + module_exports" where
  "no_module path = Inl (JsError ''Cannot find module'')"

definition named_export_module :: "string \<Rightarrow> js_error + module_exports" where
  "named_export_module path =
     (if path = ''./cypress/config/qa.config.ts'' then Inr (Exports None)
      else Inl (JsError ''Cannot find module''))"

definition users_response :: ApiResponse where
  "users_response =
     \<lparr>status = 200, body = JObj 0 [(''id'', JStr ''1'')],
      headers = [(''content-type'', ''application/json; charset=utf-8'')], duration = 5\<rparr>"


section \<open>Properties of ApiHelper\<close>

text \<open>
  Claim C5. For every response and every integer code, 2xx or not,
  \<open>verifyStatusCode(response, code)\<close> passes if and only if \<open>response.status === code\<close>.
\<close>

theorem verifyStatusCode_iff:
  "verifyStatusCode response code = Inr () \<longleftrightarrow> status response = code"
  by (simp add: verifyStatusCode_def expect_eq_def)

theorem verifyStatusCode_iff_witness:
  "verifyStatusCode (users_response\<lparr>status := 404\<rparr>) 404 = Inr ()
   \<and> verifyStatusCode (users_response\<lparr>status := 500\<rparr>) 500 = Inr ()
   \<and> verifyStatusCode (users_response\<lparr>status := 404\<rparr>) 200 \<noteq> Inr ()"
  using verifyStatusCode_iff [of "users_response\<lparr>status := 404\<rparr>" 404]
    verifyStatusCode_iff [of "users_response\<lparr>status := 500\<rparr>" 500]
    verifyStatusCode_iff [of "users_response\<lparr>status := 404\<rparr>" 200]
  by simp

lemma strict_eq_string_number: "\<not> strict_eq (JStr s) (JNum n)"
  by simp

lemma strict_eq_JNum: "strict_eq v (JNum n) \<longleftrightarrow> v = JNum n"
  by (cases v) auto

text \<open>
  Claim C7. \<open>verifyBodyPropertyValue\<close> passes exactly when \<open>response.body[property]\<close>
  can be read and is strictly equal to the expected value; no coercion takes place,
  so a property holding a string fails against every expected number.
\<close>

theorem verifyBodyPropertyValue_strict:
  "(verifyBodyPropertyValue response property val = Inr ()
      \<longleftrightarrow> (\<exists>v. get_prop (body response) property = Inr v \<and> strict_eq v val))
   \<and> (get_prop (body response) property = Inr (JStr s)
      \<longrightarrow> verifyBodyPropertyValue response property (JNum n) = Inl (AssertionError []))"
  by (auto simp: verifyBodyPropertyValue_def expect_eq_def split: sum.splits)

text \<open>
  The instance \<open>verifyBodyPropertyValue({body: {id: "1"}}, "id", 1)\<close> fails.
\<close>

theorem verifyBodyPropertyValue_strict_witness:
  "get_prop (body users_response) ''id'' = Inr (JStr ''1'')
   \<and> verifyBodyPropertyValue users_response ''id'' (JNum 1) = Inl (AssertionError [])
   \<and> verifyBodyPropertyValue users_response ''id'' (JStr ''1'') = Inr ()"
  using verifyBodyPropertyValue_strict [of users_response "''id''" "JNum 1" "''1''" 1]
    verifyBodyPropertyValue_strict [of users_response "''id''" "JStr ''1''" "''1''" 1]
  by (simp add: users_response_def)

lemma toLowerCase_Content_Type: "toLowerCase ''Content-Type'' = ''content-type''"
  by code_simp





lemma toLowerCase_Constructor: "toLowerCase ''Constructor'' = ''constructor''"
  by code_simp

text \<open>
  Claim C10. The empty string as expected value is falsy, so the call behaves as the
  call without an expected value: the substring check is skipped and the call passes
  exactly when the lower-cased header name is a property of \<open>response.headers\<close>, in
  particular whenever it is one of its keys, whatever the value under it.
\<close>

theorem verifyHeader_empty_expected:
  "verifyHeader response headerName (Some []) = verifyHeader response headerName None
   \<and> (verifyHeader response headerName (Some []) = Inr ()
        \<longleftrightarrow> has_property (headers response) (toLowerCase headerName))
   \<and> (map_of (headers response) (toLowerCase headerName) \<noteq> None \<longrightarrow>
        verifyHeader response headerName (Some []) = Inr ())"
  by (simp add: verifyHeader_def expect_have_property_def has_property_def truthy_string_def)

theorem verifyHeader_empty_expected_witness:
  "verifyHeader users_response ''Content-Type'' (Some []) = Inr ()
   \<and> verifyHeader users_response ''Content-Type'' None = Inr ()
   \<and> verifyHeader users_response ''ETag'' (Some []) = verifyHeader users_response ''ETag'' None
   \<and> verifyHeader users_response ''Constructor'' (Some []) = Inr ()"
proof -
  have k: "map_of (headers users_response) (toLowerCase ''Content-Type'') \<noteq> None"
    by (simp add: toLowerCase_Content_Type users_response_def)
  have i: "has_property (headers users_response) (toLowerCase ''Constructor'')"
    by (simp add: toLowerCase_Constructor has_property_def Object_prototype_members_def)
  have a: "verifyHeader users_response ''Content-Type'' (Some []) = Inr ()"
    using verifyHeader_empty_expected [of users_response "''Content-Type''"] k by blast
  have b: "verifyHeader users_response ''Content-Type'' None = Inr ()"
    using verifyHeader_empty_expected [of users_response "''Content-Type''"] a by simp
  have c: "verifyHeader users_response ''ETag'' (Some []) = verifyHeader users_response ''ETag'' None"
    using verifyHeader_empty_expected [of users_response "''ETag''"] by blast
  have d: "verifyHeader users_response ''Constructor'' (Some []) = Inr ()"
    using verifyHeader_empty_expected [of users_response "''Constructor''"] i by blast
  show ?thesis using a b c d by blast
qed

section \<open>Properties of the database tasks\<close>

text \<open>
  The parameter loop binds every parameter when no input throws, and the error it
  reports is the one an input threw; all its calls are inputs on the pool.
\<close>

lemma add_parameters_all_bound:
  "\<forall>kv \<in> set ps. request_input cl p (fst kv) (snd kv) = None \<Longrightarrow>
   add_parameters cl p ps = (None, ps, map (\<lambda>kv. Input p (fst kv) (snd kv)) ps)"
  by (induction ps) auto

lemma add_parameters_error:
  "fst (add_parameters cl p ps) = Some e \<Longrightarrow>
   \<exists>kv \<in> set ps. request_input cl p (fst kv) (snd kv) = Some e"
  by (induction ps) (auto split: option.splits prod.splits)

lemma add_parameters_calls:
  "c \<in> set (snd (snd (add_parameters cl p ps))) \<Longrightarrow> \<exists>k v. c = Input p k v"
  by (induction ps arbitrary: c) (auto split: option.splits prod.splits)

text \<open>
  A task rejects only with what \<open>pool.close()\<close> threw.
\<close>

lemma executeQuery_rejects:
  "fst (executeQuery cl q c) = Inl e \<Longrightarrow> \<exists>p. sql_connect cl c = Inr p \<and> pool_close cl p = Some e"
  by (auto simp: executeQuery_def finally_close_def split: sum.splits option.splits)

lemma executeStoredProcedure_rejects:
  "fst (executeStoredProcedure cl n ps c) = Inl e \<Longrightarrow>
   \<exists>p. sql_connect cl c = Inr p \<and> pool_close cl p = Some e"
  by (auto simp: executeStoredProcedure_def finally_close_def
           split: sum.splits option.splits prod.splits)

text \<open>
  When closing does not throw, the task resolves with the result of the \<open>try\<close> or
  the \<open>catch\<close> block.
\<close>

lemma executeQuery_resolves:
  assumes "\<forall>p. sql_connect cl c = Inr p \<longrightarrow> pool_close cl p = None"
  shows "fst (executeQuery cl q c) =
     Inr (case sql_connect cl c of
            Inl e \<Rightarrow> failed e
          | Inr p \<Rightarrow> (case request_query cl p q of Inl e \<Rightarrow> failed e | Inr res \<Rightarrow> succeeded res))"
  using assms by (auto simp: executeQuery_def finally_close_def split: sum.splits option.splits)

lemma executeStoredProcedure_resolves:
  assumes "\<forall>p. sql_connect cl c = Inr p \<longrightarrow> pool_close cl p = None"
  shows "fst (executeStoredProcedure cl n ps c) =
     Inr (case sql_connect cl c of
            Inl e \<Rightarrow> failed e
          | Inr p \<Rightarrow>
              (case add_parameters cl p (case ps of None \<Rightarrow> [] | Some x \<Rightarrow> x) of
                 (Some e, bound, made) \<Rightarrow> failed e
               | (None, bound, made) \<Rightarrow>
                   (case request_execute cl p bound n of
                      Inl e \<Rightarrow> failed e
                    | Inr res \<Rightarrow> succeeded res)))"
  using assms
  by (auto simp: executeStoredProcedure_def finally_close_def
           split: sum.splits option.splits prod.splits)

text \<open>
  The client calls of a task.
\<close>

lemma executeQuery_calls:
  "snd (executeQuery cl q c) =
     (case sql_connect cl c of Inl e \<Rightarrow> [Connect c] | Inr p \<Rightarrow> [Connect c, Query p q, Close p])"
  by (auto simp: executeQuery_def finally_close_def split: sum.splits option.splits)

lemma executeStoredProcedure_calls:
  assumes conn: "sql_connect cl c = Inr p"
  shows "\<exists>mid. snd (executeStoredProcedure cl n ps c) = Connect c # mid @ [Close p]
        \<and> (\<forall>x \<in> set mid. call_pool x = Some p \<and> x \<noteq> Close p)"
proof -
  obtain r bound made
    where ap: "add_parameters cl p (case ps of None \<Rightarrow> [] | Some x \<Rightarrow> x) = (r, bound, made)"
    by (metis prod_cases3)
  have inputs: "\<forall>x \<in> set made. \<exists>k v. x = Input p k v"
    using add_parameters_calls [of _ cl p "case ps of None \<Rightarrow> [] | Some x \<Rightarrow> x"] ap by simp
  show ?thesis
  proof (cases r)
    case None
    then have "snd (executeStoredProcedure cl n ps c)
                 = Connect c # (made @ [Execute p n]) @ [Close p]"
      using conn ap by (simp add: executeStoredProcedure_def finally_close_def split: option.splits)
    moreover have "\<forall>x \<in> set (made @ [Execute p n]). call_pool x = Some p \<and> x \<noteq> Close p"
      using inputs by auto
    ultimately show ?thesis by blast
  next
    case (Some e)
    then have "snd (executeStoredProcedure cl n ps c) = Connect c # made @ [Close p]"
      using conn ap by (simp add: executeStoredProcedure_def finally_close_def split: option.splits)
    moreover have "\<forall>x \<in> set made. call_pool x = Some p \<and> x \<noteq> Close p"
      using inputs by auto
    ultimately show ?thesis by blast
  qed
qed

lemma executeStoredProcedure_calls_unconnected:
  "sql_connect cl c = Inl e \<Longrightarrow> snd (executeStoredProcedure cl n ps c) = [Connect c]"
  by (simp add: executeStoredProcedure_def)

lemma executeQuery_first_call: "\<exists>rest. snd (executeQuery cl q c) = Connect c # rest"
  by (simp add: executeQuery_calls split: sum.splits)

lemma executeStoredProcedure_first_call:
  "\<exists>rest. snd (executeStoredProcedure cl n ps c) = Connect c # rest"
proof (cases "sql_connect cl c")
  case (Inl e)
  then show ?thesis by (simp add: executeStoredProcedure_calls_unconnected)
next
  case (Inr p)
  then show ?thesis using executeStoredProcedure_calls [of cl c p n ps] by auto
qed

lemma run_task_calls:
  assumes conn: "sql_connect cl (task_config t) = Inr p"
  shows "\<exists>mid. snd (run_task cl t) = Connect (task_config t) # mid @ [Close p]
        \<and> (\<forall>x \<in> set mid. call_pool x = Some p \<and> x \<noteq> Close p)"
proof (cases t)
  case (DbQuery q c)
  then have "snd (run_task cl t) = Connect (task_config t) # [Query p q] @ [Close p]"
    using conn by (simp add: executeQuery_calls)
  then show ?thesis by force
next
  case (DbStoredProcedure n ps c)
  then show ?thesis using conn executeStoredProcedure_calls [of cl c p n ps] by simp
qed

lemma run_task_calls_unconnected:
  "sql_connect cl (task_config t) = Inl e \<Longrightarrow> snd (run_task cl t) = [Connect (task_config t)]"
  by (cases t) (simp_all add: executeQuery_calls executeStoredProcedure_calls_unconnected)

lemma open_pools_append:
  "open_pools cl (xs @ ys) opened = open_pools cl ys (open_pools cl xs opened)"
  by (induction cl xs opened rule: open_pools.induct) (auto split: sum.splits)

lemma open_pools_mid:
  "\<forall>x \<in> set mid. call_pool x = Some p \<and> x \<noteq> Close p \<Longrightarrow> open_pools cl mid opened = opened"
proof (induction mid)
  case Nil
  then show ?case by simp
next
  case (Cons x mid)
  then show ?case by (cases x) auto
qed

lemma open_pools_run_task: "open_pools cl (snd (run_task cl t)) opened = opened"
proof (cases "sql_connect cl (task_config t)")
  case (Inl e)
  then show ?thesis by (simp add: run_task_calls_unconnected)
next
  case (Inr p)
  then obtain mid where m: "snd (run_task cl t) = Connect (task_config t) # mid @ [Close p]"
    and u: "\<forall>x \<in> set mid. call_pool x = Some p \<and> x \<noteq> Close p"
    using run_task_calls by blast
  show ?thesis using Inr by (simp add: m open_pools_append open_pools_mid [OF u])
qed

lemma open_pools_run_tasks: "open_pools cl (run_tasks cl ts) opened = opened"
  by (induction ts) (simp_all add: run_tasks_def open_pools_append open_pools_run_task)

text \<open>
  Claim C2, as the code has it. An exception thrown while connecting, binding a
  parameter or executing is never propagated by \<open>executeQuery\<close> or
  \<open>executeStoredProcedure\<close>: what they propagate, if anything, is what \<open>pool.close()\<close>
  threw in the \<open>finally\<close> block. Whenever closing does not throw, a thrown error is
  returned as \<open>{ success: false, error: message }\<close> and a successful execution as
  \<open>{ success: true, data, rowsAffected }\<close>.
\<close>

theorem tasks_capture_errors:
  "(\<forall>e. fst (executeQuery cl q c) = Inl e \<or> fst (executeStoredProcedure cl n ps c) = Inl e
        \<longrightarrow> (\<exists>p. sql_connect cl c = Inr p \<and> pool_close cl p = Some e))
   \<and> ((\<forall>p. sql_connect cl c = Inr p \<longrightarrow> pool_close cl p = None) \<longrightarrow>
        (\<forall>e. sql_connect cl c = Inl e \<longrightarrow>
           fst (executeQuery cl q c)
             = Inr \<lparr>success = False, data = None, rowsAffected = None, error = Some (message e)\<rparr>
           \<and> fst (executeStoredProcedure cl n ps c)
             = Inr \<lparr>success = False, data = None, rowsAffected = None, error = Some (message e)\<rparr>)
      \<and> (\<forall>p e. sql_connect cl c = Inr p \<and> request_query cl p q = Inl e \<longrightarrow>
           fst (executeQuery cl q c)
             = Inr \<lparr>success = False, data = None, rowsAffected = None, error = Some (message e)\<rparr>)
      \<and> (\<forall>p res. sql_connect cl c = Inr p \<and> request_query cl p q = Inr res \<longrightarrow>
           fst (executeQuery cl q c)
             = Inr \<lparr>success = True, data = recordset res,
                    rowsAffected = Some (result_rowsAffected res), error = None\<rparr>)
      \<and> (\<forall>p e bound made. sql_connect cl c = Inr p
             \<and> add_parameters cl p (case ps of None \<Rightarrow> [] | Some x \<Rightarrow> x) = (Some e, bound, made) \<longrightarrow>
           fst (executeStoredProcedure cl n ps c)
             = Inr \<lparr>success = False, data = None, rowsAffected = None, error = Some (message e)\<rparr>)
      \<and> (\<forall>p e bound made. sql_connect cl c = Inr p
             \<and> add_parameters cl p (case ps of None \<Rightarrow> [] | Some x \<Rightarrow> x) = (None, bound, made)
             \<and> request_execute cl p bound n = Inl e \<longrightarrow>
           fst (executeStoredProcedure cl n ps c)
             = Inr \<lparr>success = False, data = None, rowsAffected = None, error = Some (message e)\<rparr>)
      \<and> (\<forall>p res bound made. sql_connect cl c = Inr p
             \<and> add_parameters cl p (case ps of None \<Rightarrow> [] | Some x \<Rightarrow> x) = (None, bound, made)
             \<and> request_execute cl p bound n = Inr res \<longrightarrow>
           fst (executeStoredProcedure cl n ps c)
             = Inr \<lparr>success = True, data = recordset res,
                    rowsAffected = Some (result_rowsAffected res), error = None\<rparr>))"
proof -
  have reject: "\<forall>e. fst (executeQuery cl q c) = Inl e \<or> fst (executeStoredProcedure cl n ps c) = Inl e
        \<longrightarrow> (\<exists>p. sql_connect cl c = Inr p \<and> pool_close cl p = Some e)"
    using executeQuery_rejects executeStoredProcedure_rejects by blast
  have resolve: "?thesis" if ok: "\<forall>p. sql_connect cl c = Inr p \<longrightarrow> pool_close cl p = None"
    using reject
    by (simp add: executeQuery_resolves [OF ok] executeStoredProcedure_resolves [OF ok]
          failed_def succeeded_def)
  show ?thesis using reject resolve by blast
qed

theorem tasks_capture_errors_witness:
  "fst (executeQuery (healthy_client 3) ''SELECT COUNT(*) as count FROM Users'' dev_db)
     = Inr \<lparr>success = True, data = Some [ [(''count'', JNum 3)] ], rowsAffected = Some [1],
            error = None\<rparr>
   \<and> fst (executeQuery failing_query_client ''SELECT * FROM Missing'' dev_db)
     = Inr \<lparr>success = False, data = None, rowsAffected = None,
            error = Some ''Invalid object name''\<rparr>"
  using tasks_capture_errors
      [of "healthy_client 3" "''SELECT COUNT(*) as count FROM Users''" dev_db "''GetUserById''" None]
    tasks_capture_errors
      [of failing_query_client "''SELECT * FROM Missing''" dev_db "''GetUserById''" None]
  by (simp add: healthy_client_def failing_query_client_def count_rows_def)

text \<open>
  Claim C2, as stated, fails: on a client whose statement throws and whose
  \<open>close\<close> throws as well, both tasks reject with the error of \<open>close\<close> instead of
  returning a result value.
\<close>

theorem tasks_reject_counterexample:
  "request_query failing_close_client 7 ''SELECT * FROM Missing''
     = Inl (JsError ''Invalid object name'')
   \<and> fst (executeQuery failing_close_client ''SELECT * FROM Missing'' dev_db)
     = Inl (JsError ''Connection lost'')
   \<and> fst (executeStoredProcedure failing_close_client ''GetUserById'' None dev_db)
     = Inl (JsError ''Connection lost'')"
  by (simp add: executeQuery_def executeStoredProcedure_def finally_close_def
        failing_close_client_def)

text \<open>
  Claim C8. A task that opens a pool makes \<open>pool.close()\<close> on that pool its last
  client call, whatever the statement does; between the connect and the close it uses
  that pool only. A task whose connect throws has no pool to close. Every task starts
  with its own connect, and after any sequence of tasks no pool is left open.
\<close>

theorem pools_closed:
  "(\<forall>p. sql_connect cl c = Inr p \<longrightarrow>
       snd (executeQuery cl q c) = [Connect c, Query p q, Close p]
     \<and> (\<exists>mid. snd (executeStoredProcedure cl n ps c) = Connect c # mid @ [Close p]
            \<and> (\<forall>x \<in> set mid. call_pool x = Some p \<and> x \<noteq> Close p)))
   \<and> (\<forall>e. sql_connect cl c = Inl e \<longrightarrow>
       snd (executeQuery cl q c) = [Connect c]
     \<and> snd (executeStoredProcedure cl n ps c) = [Connect c])
   \<and> open_pools cl (run_tasks cl ts) [] = []"
  using executeStoredProcedure_calls [of cl c _ n ps]
  by (simp add: executeQuery_calls executeStoredProcedure_calls_unconnected open_pools_run_tasks)

theorem pools_closed_witness:
  "snd (executeQuery (healthy_client 3) ''SELECT 1'' dev_db)
     = [Connect dev_db, Query 7 ''SELECT 1'', Close 7]
   \<and> snd (executeQuery failing_query_client ''SELECT * FROM Missing'' dev_db)
     = [Connect dev_db, Query 7 ''SELECT * FROM Missing'', Close 7]
   \<and> last (snd (executeStoredProcedure failing_query_client ''GetUserById''
              (Some [(''userId'', JNum 1)]) dev_db)) = Close 7
   \<and> open_pools failing_query_client
        (run_tasks failing_query_client
           [DbQuery ''SELECT 1'' dev_db,
            DbStoredProcedure ''GetUserById'' (Some [(''userId'', JNum 1)]) dev_db]) [] = []"
proof -
  have h: "sql_connect (healthy_client 3) dev_db = Inr 7"
    by (simp add: healthy_client_def)
  have f: "sql_connect failing_query_client dev_db = Inr 7"
    by (simp add: failing_query_client_def)
  show ?thesis
    using pools_closed [of "healthy_client 3" dev_db "''SELECT 1''" "''GetUserById''"
        "Some [(''userId'', JNum 1)]" "[]"]
      pools_closed [of failing_query_client dev_db "''SELECT * FROM Missing''" "''GetUserById''"
        "Some [(''userId'', JNum 1)]"
        "[DbQuery ''SELECT 1'' dev_db,
          DbStoredProcedure ''GetUserById'' (Some [(''userId'', JNum 1)]) dev_db]"]
      h f
    by auto
qed

section \<open>Properties of DbHelper\<close>

lemma resolve_config_setConfig: "resolve_config (setConfig c h) None = Inr c"
  by (simp add: resolve_config_def getConfig_def setConfig_def)

lemma resolve_config_custom: "resolve_config h (Some c) = Inr c"
  by (simp add: resolve_config_def)

lemma resolve_config_stored: "config h = Some c \<Longrightarrow> resolve_config h None = Inr c"
  by (simp add: resolve_config_def getConfig_def)

lemma query_unconfigured:
  "config h = None \<Longrightarrow>
   query h cl q None =
     \<lparr>result = Inl (Error ''Database configuration not set. Call DbHelper.setConfig() first.''),
      calls = [], state = h\<rparr>"
  by (simp add: query_def resolve_config_def getConfig_def)

lemma query_result:
  "resolve_config h cc = Inr c \<Longrightarrow>
   result (query h cl q cc) =
     (case fst (executeQuery cl q c) of Inl e \<Rightarrow> Inl (TaskRejected (message e)) | Inr r \<Rightarrow> Inr r)"
  by (auto simp: query_def cy_task_def split: sum.splits prod.splits)

lemma query_calls:
  "resolve_config h cc = Inr c \<Longrightarrow> calls (query h cl q cc) = snd (executeQuery cl q c)"
  by (auto simp: query_def cy_task_def split: sum.splits prod.splits)

lemma query_state: "state (query h cl q cc) = h"
  by (auto simp: query_def cy_task_def split: sum.splits prod.splits)

lemma DbHelper_executeStoredProcedure_state:
  "state (DbHelper_executeStoredProcedure h cl n ps cc) = h"
  by (auto simp: DbHelper_executeStoredProcedure_def cy_task_def split: sum.splits prod.splits)

lemma DbHelper_executeStoredProcedure_result:
  "resolve_config h cc = Inr c \<Longrightarrow>
   result (DbHelper_executeStoredProcedure h cl n ps cc) =
     (case fst (executeStoredProcedure cl n ps c) of
        Inl e \<Rightarrow> Inl (TaskRejected (message e)) | Inr r \<Rightarrow> Inr r)"
  by (auto simp: DbHelper_executeStoredProcedure_def cy_task_def split: sum.splits prod.splits)

lemma DbHelper_executeStoredProcedure_calls:
  "resolve_config h cc = Inr c \<Longrightarrow>
   calls (DbHelper_executeStoredProcedure h cl n ps cc) = snd (executeStoredProcedure cl n ps c)"
  by (auto simp: DbHelper_executeStoredProcedure_def cy_task_def split: sum.splits prod.splits)

text \<open>
  Claim C1, as the code has it. Without an override and with no configuration stored,
  \<open>query\<close> raises the configuration-not-set error and issues nothing. After
  \<open>setConfig\<close>, and provided closing the pool does not throw, it yields a result whose
  \<open>success\<close> is true exactly when connecting and executing did not throw, for every
  SQL string.
\<close>

theorem query_requires_config:
  "(config h = None \<longrightarrow>
      result (query h cl q None)
        = Inl (Error ''Database configuration not set. Call DbHelper.setConfig() first.'')
      \<and> calls (query h cl q None) = [])
   \<and> ((\<forall>p. sql_connect cl c = Inr p \<longrightarrow> pool_close cl p = None) \<longrightarrow>
        (\<exists>r. result (query (setConfig c h) cl q None) = Inr r
           \<and> (success r \<longleftrightarrow> (\<exists>p res. sql_connect cl c = Inr p \<and> request_query cl p q = Inr res))))"
proof -
  have a: "config h = None \<longrightarrow>
      result (query h cl q None)
        = Inl (Error ''Database configuration not set. Call DbHelper.setConfig() first.'')
      \<and> calls (query h cl q None) = []"
    by (simp add: query_unconfigured)
  have b: "\<exists>r. result (query (setConfig c h) cl q None) = Inr r
           \<and> (success r \<longleftrightarrow> (\<exists>p res. sql_connect cl c = Inr p \<and> request_query cl p q = Inr res))"
    if ok: "\<forall>p. sql_connect cl c = Inr p \<longrightarrow> pool_close cl p = None"
    by (auto simp: query_result [OF resolve_config_setConfig] executeQuery_resolves [OF ok]
          failed_def succeeded_def split: sum.splits)
  show ?thesis using a b by blast
qed

theorem query_requires_config_witness:
  "result (query \<lparr>config = None\<rparr> (healthy_client 3) ''SELECT 1'' None)
     = Inl (Error ''Database configuration not set. Call DbHelper.setConfig() first.'')
   \<and> (\<exists>r. result (query (setConfig dev_db \<lparr>config = None\<rparr>) (healthy_client 3) ''SELECT 1'' None)
            = Inr r \<and> success r)
   \<and> (\<exists>r. result (query (setConfig dev_db \<lparr>config = None\<rparr>) failing_query_client
                     ''SELECT * FROM Missing'' None)
            = Inr r \<and> \<not> success r)"
  using query_requires_config [of "\<lparr>config = None\<rparr>" "healthy_client 3" "''SELECT 1''" dev_db]
    query_requires_config
      [of "\<lparr>config = None\<rparr>" failing_query_client "''SELECT * FROM Missing''" dev_db]
  by (simp add: healthy_client_def failing_query_client_def)

text \<open>
  Claim C1, as stated, fails: after \<open>setConfig\<close>, on a client whose \<open>close\<close>
  throws, the command fails instead of yielding a result.
\<close>

theorem query_after_setConfig_counterexample:
  "config (setConfig dev_db \<lparr>config = None\<rparr>) = Some dev_db
   \<and> result (query (setConfig dev_db \<lparr>config = None\<rparr>) failing_close_client ''SELECT 1'' None)
       = Inl (TaskRejected ''Connection lost'')"
  by (simp add: query_def resolve_config_def getConfig_def setConfig_def cy_task_def
        executeQuery_def finally_close_def failing_close_client_def)

text \<open>
  Claim C9. With an override configuration supplied, \<open>query\<close> and
  \<open>executeStoredProcedure\<close> never raise the error of \<open>getConfig\<close>, also when nothing
  is stored; they connect with the override and leave the stored configuration as it
  was, so that a later call without an override resolves to what \<open>setConfig\<close> stored.
\<close>

theorem custom_config_frame:
  "state (query h cl q (Some c)) = h
   \<and> state (DbHelper_executeStoredProcedure h cl n ps (Some c)) = h
   \<and> (\<forall>m. result (query h cl q (Some c)) \<noteq> Inl (Error m))
   \<and> (\<forall>m. result (DbHelper_executeStoredProcedure h cl n ps (Some c)) \<noteq> Inl (Error m))
   \<and> (\<exists>rest. calls (query h cl q (Some c)) = Connect c # rest)
   \<and> (\<exists>rest. calls (DbHelper_executeStoredProcedure h cl n ps (Some c)) = Connect c # rest)
   \<and> resolve_config (state (query (setConfig c0 h) cl q (Some c))) None = Inr c0
   \<and> resolve_config (state (DbHelper_executeStoredProcedure (setConfig c0 h) cl n ps (Some c))) None
       = Inr c0"
proof -
  have "\<forall>m. result (query h cl q (Some c)) \<noteq> Inl (Error m)"
    by (simp add: query_result [OF resolve_config_custom] split: sum.splits)
  moreover have "\<forall>m. result (DbHelper_executeStoredProcedure h cl n ps (Some c)) \<noteq> Inl (Error m)"
    by (simp add: DbHelper_executeStoredProcedure_result [OF resolve_config_custom]
          split: sum.splits)
  moreover have "\<exists>rest. calls (query h cl q (Some c)) = Connect c # rest"
    by (simp add: query_calls [OF resolve_config_custom] executeQuery_first_call)
  moreover have "\<exists>rest. calls (DbHelper_executeStoredProcedure h cl n ps (Some c)) = Connect c # rest"
    by (simp add: DbHelper_executeStoredProcedure_calls [OF resolve_config_custom]
          executeStoredProcedure_first_call)
  ultimately show ?thesis
    by (simp add: query_state DbHelper_executeStoredProcedure_state resolve_config_setConfig)
qed

theorem custom_config_frame_witness:
  "state (query \<lparr>config = None\<rparr> (healthy_client 3) ''SELECT 1'' (Some dev_db))
     = \<lparr>config = None\<rparr>
   \<and> result (query \<lparr>config = None\<rparr> (healthy_client 3) ''SELECT 1'' (Some dev_db))
     \<noteq> Inl (Error ''Database configuration not set. Call DbHelper.setConfig() first.'')
   \<and> resolve_config
        (state (query (setConfig dev_db \<lparr>config = None\<rparr>) (healthy_client 3) ''SELECT 1''
                  (Some (dev_db\<lparr>database := ''Other''\<rparr>)))) None
     = Inr dev_db"
  using custom_config_frame
      [of "\<lparr>config = None\<rparr>" "healthy_client 3" "''SELECT 1''" dev_db "''GetUserById''" None
          dev_db]
    custom_config_frame
      [of "\<lparr>config = None\<rparr>" "healthy_client 3" "''SELECT 1''"
          "dev_db\<lparr>database := ''Other''\<rparr>" "''GetUserById''" None dev_db]
  by simp

lemma expect_greaterThan_passes:
  "expect_greaterThan msg v n = Inr () \<longleftrightarrow> (\<exists>k. v = JNum k \<and> n < k)"
  by (cases v) auto

lemma verifyRecordExists_passes:
  "result (verifyRecordExists h cl t w) = Inr () \<longleftrightarrow>
     (\<exists>r n. result (query h cl (''SELECT COUNT(*) as count FROM '' @ t @ '' WHERE '' @ w) None)
               = Inr r
          \<and> success r \<and> data0_count r = Inr (JNum n) \<and> 0 < n)"
  by (auto simp: verifyRecordExists_def then_step_def expect_true_def expect_greaterThan_passes
           split: sum.splits)

lemma verifyRecordNotExists_passes:
  "result (verifyRecordNotExists h cl t w) = Inr () \<longleftrightarrow>
     (\<exists>r. result (query h cl (''SELECT COUNT(*) as count FROM '' @ t @ '' WHERE '' @ w) None)
             = Inr r
          \<and> success r \<and> data0_count r = Inr (JNum 0))"
  by (auto simp: verifyRecordNotExists_def then_step_def expect_true_def expect_eq_def
        strict_eq_JNum split: sum.splits)

lemma verifyRecord_fails:
  "result (query h cl (''SELECT COUNT(*) as count FROM '' @ t @ '' WHERE '' @ w) None) = Inr r
   \<Longrightarrow> \<not> success r
   \<Longrightarrow> result (verifyRecordExists h cl t w) = Inl (AssertionError ''Database query should succeed'')
     \<and> result (verifyRecordNotExists h cl t w)
         = Inl (AssertionError ''Database query should succeed'')"
  by (simp add: verifyRecordExists_def verifyRecordNotExists_def then_step_def expect_true_def)

lemma verifyRecord_aborted:
  "result (query h cl (''SELECT COUNT(*) as count FROM '' @ t @ '' WHERE '' @ w) None) = Inl f
   \<Longrightarrow> result (verifyRecordExists h cl t w) = Inl f
     \<and> result (verifyRecordNotExists h cl t w) = Inl f"
  by (simp add: verifyRecordExists_def verifyRecordNotExists_def then_step_def)

lemma verifyRecord_calls:
  "calls (verifyRecordExists h cl t w)
     = calls (query h cl (''SELECT COUNT(*) as count FROM '' @ t @ '' WHERE '' @ w) None)
   \<and> calls (verifyRecordNotExists h cl t w)
     = calls (query h cl (''SELECT COUNT(*) as count FROM '' @ t @ '' WHERE '' @ w) None)"
  by (simp add: verifyRecordExists_def verifyRecordNotExists_def then_step_def)

text \<open>
  Claim C4. Both helpers issue \<open>SELECT COUNT(*) as count FROM table WHERE clause\<close>.
  \<open>verifyRecordExists\<close> passes exactly when the query yields a successful result whose
  first row has a numeric \<open>count\<close> above 0, \<open>verifyRecordNotExists\<close> exactly when it is
  0. When the query yields an unsuccessful result both fail on the assertion
  \<open>Database query should succeed\<close>, and when the query command itself fails both fail
  with it.
\<close>

theorem verifyRecord_count:
  "(result (verifyRecordExists h cl t w) = Inr () \<longleftrightarrow>
     (\<exists>r n. result (query h cl (''SELECT COUNT(*) as count FROM '' @ t @ '' WHERE '' @ w) None)
               = Inr r
          \<and> success r \<and> data0_count r = Inr (JNum n) \<and> 0 < n))
   \<and> (result (verifyRecordNotExists h cl t w) = Inr () \<longleftrightarrow>
     (\<exists>r. result (query h cl (''SELECT COUNT(*) as count FROM '' @ t @ '' WHERE '' @ w) None)
             = Inr r
          \<and> success r \<and> data0_count r = Inr (JNum 0)))
   \<and> (\<forall>c p. config h = Some c \<and> sql_connect cl c = Inr p \<longrightarrow>
         calls (verifyRecordExists h cl t w)
           = [Connect c, Query p (''SELECT COUNT(*) as count FROM '' @ t @ '' WHERE '' @ w), Close p]
       \<and> calls (verifyRecordNotExists h cl t w)
           = [Connect c, Query p (''SELECT COUNT(*) as count FROM '' @ t @ '' WHERE '' @ w), Close p])
   \<and> (\<forall>r. result (query h cl (''SELECT COUNT(*) as count FROM '' @ t @ '' WHERE '' @ w) None)
             = Inr r \<and> \<not> success r \<longrightarrow>
         result (verifyRecordExists h cl t w)
           = Inl (AssertionError ''Database query should succeed'')
       \<and> result (verifyRecordNotExists h cl t w)
           = Inl (AssertionError ''Database query should succeed''))
   \<and> (\<forall>f. result (query h cl (''SELECT COUNT(*) as count FROM '' @ t @ '' WHERE '' @ w) None)
             = Inl f \<longrightarrow>
         result (verifyRecordExists h cl t w) = Inl f
       \<and> result (verifyRecordNotExists h cl t w) = Inl f)"
proof -
  have issued: "\<forall>c p. config h = Some c \<and> sql_connect cl c = Inr p \<longrightarrow>
         calls (verifyRecordExists h cl t w)
           = [Connect c, Query p (''SELECT COUNT(*) as count FROM '' @ t @ '' WHERE '' @ w), Close p]
       \<and> calls (verifyRecordNotExists h cl t w)
           = [Connect c, Query p (''SELECT COUNT(*) as count FROM '' @ t @ '' WHERE '' @ w), Close p]"
    by (simp add: verifyRecord_calls query_calls [OF resolve_config_stored] executeQuery_calls)
  show ?thesis
    using verifyRecordExists_passes [of h cl t w] verifyRecordNotExists_passes [of h cl t w]
      issued verifyRecord_fails [of h cl t w] verifyRecord_aborted [of h cl t w]
    by blast
qed

theorem verifyRecord_count_witness:
  "result (verifyRecordExists (setConfig dev_db \<lparr>config = None\<rparr>) (healthy_client 3)
             ''Users'' ''id = 1'') = Inr ()
   \<and> result (verifyRecordNotExists (setConfig dev_db \<lparr>config = None\<rparr>) (healthy_client 0)
             ''Users'' ''id = 1'') = Inr ()
   \<and> calls (verifyRecordExists (setConfig dev_db \<lparr>config = None\<rparr>) (healthy_client 3)
             ''Users'' ''id = 1'')
       = [Connect dev_db, Query 7 ''SELECT COUNT(*) as count FROM Users WHERE id = 1'', Close 7]
   \<and> result (verifyRecordExists (setConfig dev_db \<lparr>config = None\<rparr>) failing_query_client
             ''Users'' ''id = 1'') = Inl (AssertionError ''Database query should succeed'')
   \<and> result (verifyRecordNotExists \<lparr>config = None\<rparr> (healthy_client 0) ''Users'' ''id = 1'')
       = Inl (Error ''Database configuration not set. Call DbHelper.setConfig() first.'')"
proof -
  let ?h = "setConfig dev_db \<lparr>config = None\<rparr>"
  have cfg: "config ?h = Some dev_db"
    by (simp add: setConfig_def)
  have q: "\<And>n. query ?h (healthy_client n) ''SELECT COUNT(*) as count FROM Users WHERE id = 1'' None
      = \<lparr>result = Inr (succeeded (count_rows n)),
         calls = [Connect dev_db, Query 7 ''SELECT COUNT(*) as count FROM Users WHERE id = 1'',
                  Close 7],
         state = ?h\<rparr>"
    by (simp add: query_def resolve_config_def getConfig_def setConfig_def cy_task_def
          executeQuery_def finally_close_def healthy_client_def)
  have qf: "query ?h failing_query_client ''SELECT COUNT(*) as count FROM Users WHERE id = 1'' None
      = \<lparr>result = Inr (failed (JsError ''Invalid object name'')),
         calls = [Connect dev_db, Query 7 ''SELECT COUNT(*) as count FROM Users WHERE id = 1'',
                  Close 7],
         state = ?h\<rparr>"
    by (simp add: query_def resolve_config_def getConfig_def setConfig_def cy_task_def
          executeQuery_def finally_close_def failing_query_client_def)
  have qn: "\<And>cl. result (query \<lparr>config = None\<rparr> cl
                ''SELECT COUNT(*) as count FROM Users WHERE id = 1'' None)
      = Inl (Error ''Database configuration not set. Call DbHelper.setConfig() first.'')"
    by (simp add: query_unconfigured)
  have d: "\<And>n. data0_count (succeeded (count_rows n)) = Inr (JNum n)"
    by (simp add: data0_count_def succeeded_def count_rows_def)
  have conn: "\<And>n. sql_connect (healthy_client n) dev_db = Inr 7"
    by (simp add: healthy_client_def)
  have s: "\<And>r. success (succeeded r)" "\<And>e. \<not> success (failed e)"
    by (simp_all add: succeeded_def failed_def)
  show ?thesis
    using verifyRecord_count [of ?h "healthy_client 3" "''Users''" "''id = 1''"]
      verifyRecord_count [of ?h "healthy_client 0" "''Users''" "''id = 1''"]
      verifyRecord_count [of ?h failing_query_client "''Users''" "''id = 1''"]
      verifyRecord_count [of "\<lparr>config = None\<rparr>" "healthy_client 0" "''Users''" "''id = 1''"]
    by (simp add: q qf qn d cfg conn s)
qed

section \<open>Properties of the environment configuration\<close>

text \<open>
  Claim C3, as the code has it. The identifier is the environment variable, \<open>dev\<close>
  when it is unset or empty, and the artifact loaded is
  \<open>./cypress/config/<identifier>.config.ts\<close>. Resolution never lets an error escape.
  When that artifact loads and has a default export, the result is that export and
  nothing is written; when loading throws or the exports cannot be read, the result is
  exactly \<open>{ baseUrl: 'https://example.cypress.io' }\<close> and one warning is written.
\<close>

theorem envConfig_resolution:
  "(\<exists>v. envConfig require ENV = Inr v)
   \<and> environment None = ''dev''
   \<and> environment (Some []) = ''dev''
   \<and> (s \<noteq> [] \<longrightarrow> environment (Some s) = s)
   \<and> (\<forall>c. require (''./cypress/config/'' @ environment ENV @ ''.config.ts'')
             = Inr (Exports (Some c)) \<longrightarrow>
         envConfig require ENV = Inr (Some c, []))
   \<and> (\<forall>e. require (''./cypress/config/'' @ environment ENV @ ''.config.ts'') = Inl e
           \<or> require (''./cypress/config/'' @ environment ENV @ ''.config.ts'') = Inr NoExports
         \<longrightarrow>
         envConfig require ENV
           = Inr (Some \<lparr>baseUrl = ''https://example.cypress.io'', env_environment = None\<rparr>,
                  [''Could not load config for environment: '' @ environment ENV
                     @ '', using default config'']))"
  by (auto simp: envConfig_def try_catch_def require_default_def environment_def default_config_def
        load_warning_def config_path_def split: sum.splits module_exports.splits)

theorem envConfig_resolution_witness:
  "envConfig qa_module (Some ''qa'') = Inr (Some qa_config, [])
   \<and> envConfig qa_module (Some ''prod'')
       = Inr (Some \<lparr>baseUrl = ''https://example.cypress.io'', env_environment = None\<rparr>,
              [''Could not load config for environment: prod, using default config''])
   \<and> envConfig qa_module None
       = Inr (Some \<lparr>baseUrl = ''https://example.cypress.io'', env_environment = None\<rparr>,
              [''Could not load config for environment: dev, using default config''])
   \<and> envConfig no_module (Some ''uat'')
       = Inr (Some \<lparr>baseUrl = ''https://example.cypress.io'', env_environment = None\<rparr>,
              [''Could not load config for environment: uat, using default config''])"
proof -
  have e: "environment (Some ''qa'') = ''qa''" "environment None = ''dev''"
    "environment (Some ''uat'') = ''uat''" "environment (Some ''prod'') = ''prod''"
    by (simp_all add: environment_def)
  show ?thesis
    using envConfig_resolution [of qa_module "Some ''qa''" "''qa''"]
      envConfig_resolution [of qa_module "Some ''prod''" "''prod''"]
      envConfig_resolution [of qa_module None "''qa''"]
      envConfig_resolution [of no_module "Some ''uat''" "''uat''"]
    by (simp add: e qa_module_def no_module_def)
qed

text \<open>
  Claim C3, as stated, fails: an artifact that loads but has no default export is
  neither returned as a configuration nor replaced by the default; the result is
  undefined and no warning is written.
\<close>

theorem envConfig_no_default_export_counterexample:
  "named_export_module (''./cypress/config/'' @ environment (Some ''qa'') @ ''.config.ts'')
     = Inr (Exports None)
   \<and> envConfig named_export_module (Some ''qa'') = Inr (None, [])"
  by (simp add: envConfig_def try_catch_def require_default_def environment_def config_path_def
        named_export_module_def)

end
